theory Spec2Isabelle
  imports Main "HOL-Library.Word"
begin

unbundle bit_operations_syntax

section \<open>The header \<^verbatim>\<open>wasm-sysroot/endian.h\<close>\<close>

text \<open>
  The header defines one macro and two \<^verbatim>\<open>static inline\<close> functions on
  \<^verbatim>\<open>uint16_t\<close>:
  \<^verbatim>\<open>
  #define TS_LITTLE_ENDIAN 1

  static inline uint16_t le16toh(uint16_t x) { return x; }
  static inline uint16_t be16toh(uint16_t x)
  {
  #if defined(__GNUC__) || defined(__clang__)
      return __builtin_bswap16(x);
  #else
      return (x << 8) | (x >> 8);
  #endif
  }
  \<close>
\<close>

subsection \<open>Types\<close>

text \<open>
  \<^verbatim>\<open>uint16_t\<close> is a 16-bit word. The header belongs to the sysroot of the
  wasm32 target, where \<^verbatim>\<open>int\<close> is a 32-bit two's complement integer: a
  \<^verbatim>\<open>uint16_t\<close> operand of \<^verbatim>\<open><<\<close>, \<^verbatim>\<open>>>\<close> or \<^verbatim>\<open>|\<close> is promoted to it. A promoted
  value is kept as a 32-bit word and read through \<open>sint\<close>.
\<close>

type_synonym uint16_t = "16 word"
type_synonym c_int = "32 word"

definition TS_LITTLE_ENDIAN :: nat where
  "TS_LITTLE_ENDIAN = 1"

subsection \<open>The C operators of the portable branch\<close>

text \<open>Integer promotion of a \<^verbatim>\<open>uint16_t\<close>: the value is kept, the type becomes \<^verbatim>\<open>int\<close>.\<close>

definition promote :: "uint16_t \<Rightarrow> c_int" where
  "promote x = ucast x"

text \<open>
  \<^verbatim>\<open>a << n\<close> on \<^verbatim>\<open>int\<close>. The behaviour is undefined when the count is not below
  the width, when \<open>a\<close> is negative, or when \<open>a * 2 ^ n\<close> is not representable in
  \<^verbatim>\<open>int\<close>; undefined behaviour is the value \<open>None\<close>.
\<close>

definition shl_int :: "c_int \<Rightarrow> nat \<Rightarrow> c_int option" where
  "shl_int a n =
     (if n < 32 \<and> 0 \<le> sint a \<and> sint a * 2 ^ n < 2 ^ 31 then Some (push_bit n a) else None)"

text \<open>
  \<^verbatim>\<open>a >> n\<close> on \<^verbatim>\<open>int\<close>: undefined when the count is not below the width;
  on a negative \<open>a\<close> the compilers of this target shift arithmetically.
\<close>

definition shr_int :: "c_int \<Rightarrow> nat \<Rightarrow> c_int option" where
  "shr_int a n = (if n < 32 then Some (signed_drop_bit n a) else None)"

text \<open>\<^verbatim>\<open>a | b\<close> on \<^verbatim>\<open>int\<close>.\<close>

definition or_int :: "c_int \<Rightarrow> c_int \<Rightarrow> c_int" where
  "or_int a b = a OR b"

text \<open>
  The conversion of the \<^verbatim>\<open>int\<close> operand of \<^verbatim>\<open>return\<close> to the return
  type \<^verbatim>\<open>uint16_t\<close>: the value modulo \<open>2 ^ 16\<close>.
\<close>

definition to_uint16 :: "c_int \<Rightarrow> uint16_t" where
  "to_uint16 a = word_of_int (sint a mod 2 ^ 16)"

subsection \<open>The compiler intrinsic\<close>

text \<open>
  Modelled from the spec: \<^verbatim>\<open>__builtin_bswap16\<close> is supplied by the compiler
  and has no definition in the repository. The spec calls it ``a dedicated byte-swap
  primitive'' and fixes what a byte swap is: ``the high-order 8 bits and low-order 8 bits
  exchange position''. The two bytes of the argument are taken apart and put together
  again in the other order.
\<close>

definition low_byte :: "uint16_t \<Rightarrow> 8 word" where
  "low_byte x = ucast x"

definition high_byte :: "uint16_t \<Rightarrow> 8 word" where
  "high_byte x = ucast (drop_bit 8 x)"

definition builtin_bswap16 :: "uint16_t \<Rightarrow> uint16_t" where
  "builtin_bswap16 x = word_cat (low_byte x) (high_byte x)"

subsection \<open>The two functions\<close>

text \<open>
  Which branch of \<^verbatim>\<open>be16toh\<close> is compiled depends on two macros of the
  compiler; a toolchain is the pair of answers to \<^verbatim>\<open>defined(__GNUC__)\<close> and
  \<^verbatim>\<open>defined(__clang__)\<close>.
\<close>

record toolchain =
  defined_GNUC :: bool
  defined_clang :: bool

definition le16toh :: "uint16_t \<Rightarrow> uint16_t" where
  "le16toh x = x"

text \<open>The \<^verbatim>\<open>#else\<close> branch: \<^verbatim>\<open>return (x << 8) | (x >> 8);\<close>\<close>

definition be16toh_portable :: "uint16_t \<Rightarrow> uint16_t option" where
  "be16toh_portable x =
     (case shl_int (promote x) 8 of
        None \<Rightarrow> None
      | Some l \<Rightarrow>
          (case shr_int (promote x) 8 of
             None \<Rightarrow> None
           | Some r \<Rightarrow> Some (to_uint16 (or_int l r))))"

text \<open>The \<^verbatim>\<open>#if\<close> branch: \<^verbatim>\<open>return __builtin_bswap16(x);\<close>\<close>

definition be16toh_builtin :: "uint16_t \<Rightarrow> uint16_t option" where
  "be16toh_builtin x = Some (builtin_bswap16 x)"

definition be16toh :: "toolchain \<Rightarrow> uint16_t \<Rightarrow> uint16_t option" where
  "be16toh tc x =
     (if defined_GNUC tc \<or> defined_clang tc then be16toh_builtin x else be16toh_portable x)"

subsection \<open>The functions as computations on the state of the machine\<close>

text \<open>
  A call runs in a state of the machine. The state has two parts: the memory outside
  the frame of the call (the objects of the caller, the static and the allocated
  objects), of any type \<open>'m\<close>, and the frame of the call, which holds the one parameter
  \<open>x\<close>. A computation takes a state; it is either undefined (\<open>None\<close>) or gives a value
  and the state it leaves. Nothing in the type keeps a computation from reading or
  changing the memory.
\<close>

record 'm machine =
  memory :: 'm
  frame_x :: uint16_t

type_synonym ('m, 'a) comp = "'m machine \<Rightarrow> ('a \<times> 'm machine) option"

text \<open>A value that is already known.\<close>

definition yield :: "'a \<Rightarrow> ('m, 'a) comp" where
  "yield v s = Some (v, s)"

text \<open>One computation after another; the second runs in the state the first leaves.\<close>

definition bind_comp :: "('m, 'a) comp \<Rightarrow> ('a \<Rightarrow> ('m, 'b) comp) \<Rightarrow> ('m, 'b) comp" where
  "bind_comp c f s = (case c s of None \<Rightarrow> None | Some (v, s') \<Rightarrow> f v s')"

text \<open>The result of an operator that may be undefined.\<close>

definition defined_or_ub :: "'a option \<Rightarrow> ('m, 'a) comp" where
  "defined_or_ub r s = (case r of None \<Rightarrow> None | Some v \<Rightarrow> Some (v, s))"

text \<open>The expression \<^verbatim>\<open>x\<close>: the value of the parameter is read from the frame.\<close>

definition read_x :: "('m, uint16_t) comp" where
  "read_x s = Some (frame_x s, s)"

text \<open>\<^verbatim>\<open>{ return x; }\<close>\<close>

definition le16toh_body :: "('m, uint16_t) comp" where
  "le16toh_body = bind_comp read_x yield"

text \<open>The operands \<^verbatim>\<open>x << 8\<close> and \<^verbatim>\<open>x >> 8\<close>; each reads \<^verbatim>\<open>x\<close> and promotes it.\<close>

definition shl_x_8 :: "('m, c_int) comp" where
  "shl_x_8 = bind_comp read_x (\<lambda>a. defined_or_ub (shl_int (promote a) 8))"

definition shr_x_8 :: "('m, c_int) comp" where
  "shr_x_8 = bind_comp read_x (\<lambda>a. defined_or_ub (shr_int (promote a) 8))"

text \<open>
  The body of \<^verbatim>\<open>be16toh\<close>. C does not fix which operand of \<^verbatim>\<open>|\<close> is evaluated
  first, so the order is a parameter. The intrinsic is the function of its argument
  modelled above.
\<close>

datatype operand_order = Left_first | Right_first

definition be16toh_body :: "toolchain \<Rightarrow> operand_order \<Rightarrow> ('m, uint16_t) comp" where
  "be16toh_body tc ord =
     (if defined_GNUC tc \<or> defined_clang tc
      then bind_comp read_x (\<lambda>a. yield (builtin_bswap16 a))
      else (case ord of
              Left_first \<Rightarrow>
                bind_comp shl_x_8 (\<lambda>l. bind_comp shr_x_8 (\<lambda>r. yield (to_uint16 (or_int l r))))
            | Right_first \<Rightarrow>
                bind_comp shr_x_8 (\<lambda>r. bind_comp shl_x_8 (\<lambda>l. yield (to_uint16 (or_int l r))))))"

text \<open>
  A call from a caller whose memory is \<open>m\<close>: the frame is made with the argument in
  \<open>x\<close>, the body runs, and the caller gets the value and the memory the body leaves; the
  frame is gone.
\<close>

definition call :: "('m, 'a) comp \<Rightarrow> uint16_t \<Rightarrow> 'm \<Rightarrow> ('a \<times> 'm) option" where
  "call body arg m =
     (case body \<lparr>memory = m, frame_x = arg\<rparr> of
        None \<Rightarrow> None
      | Some (v, s) \<Rightarrow> Some (v, memory s))"

section \<open>Properties of the C operators on promoted values\<close>

text \<open>A promoted \<^verbatim>\<open>uint16_t\<close> keeps its value and is never negative.\<close>

lemma uint16_range:
  fixes x :: uint16_t
  shows "0 \<le> uint x" and "uint x < 2 ^ 16"
  using uint_nonnegative [of x] uint_bounded [of x] by simp_all

lemma uint_promote: "uint (promote x) = uint x"
  unfolding promote_def by (simp add: uint_up_ucast is_up)

lemma sint_eq_uint_small:
  fixes w :: c_int
  assumes "uint w < 2 ^ 31"
  shows "sint w = uint w"
proof -
  have "0 \<le> uint w" by (rule uint_nonnegative)
  then have "- (2 ^ 31) \<le> uint w" by (rule order_trans [rotated]) simp
  with assms have "signed_take_bit 31 (uint w) = uint w"
    by (simp add: signed_take_bit_int_eq_self)
  then show ?thesis by (simp add: sint_uint)
qed

lemma sint_promote: "sint (promote x) = uint x"
proof -
  have "uint x < 2 ^ 16" using uint_bounded [of x] by simp
  then have upper: "uint x < 2 ^ 31" by simp
  have "0 \<le> uint x" by (rule uint_nonnegative)
  then have lower: "- (2 ^ 31) \<le> uint x" by (rule order_trans [rotated]) simp
  from lower upper have "signed_take_bit 31 (uint x) = uint x"
    by (simp add: signed_take_bit_int_eq_self)
  then show ?thesis
    by (simp add: promote_def signed_ucast_eq)
qed

text \<open>
  Neither shift of the portable branch is undefined: \<open>x * 2 ^ 8\<close> is below \<open>2 ^ 24\<close>.
\<close>

lemma shl_int_promote: "shl_int (promote x) 8 = Some (push_bit 8 (promote x))"
proof -
  have "uint x < 2 ^ 16" using uint_bounded [of x] by simp
  then have "uint x * 2 ^ 8 < 2 ^ 31" by simp
  then show ?thesis
    by (simp add: shl_int_def sint_promote)
qed

lemma shr_int_promote: "shr_int (promote x) 8 = Some (drop_bit 8 (promote x))"
proof -
  have "signed_drop_bit 8 (promote x) = drop_bit 8 (promote x)"
    unfolding promote_def
    by (rule bit_word_eqI) (auto simp add: bit_simps dest: bit_imp_le_length)
  then show ?thesis
    by (simp add: shr_int_def)
qed

lemma uint_shl_promote: "uint (push_bit 8 (promote x)) = uint x * 2 ^ 8"
proof -
  have "uint (promote x) * uint (2 ^ 8 :: c_int) < 2 ^ LENGTH(32)"
    using uint16_range(2) [of x] by (simp add: uint_promote)
  then have "uint (promote x * 2 ^ 8) = uint (promote x) * uint (2 ^ 8 :: c_int)"
    by (simp only: uint_mult_lem)
  then show ?thesis
    by (simp add: push_bit_eq_mult uint_promote)
qed

lemma uint_shr_promote: "uint (drop_bit 8 (promote x)) = uint x div 2 ^ 8"
  by (simp add: drop_bit_eq_div uint_div uint_promote)

lemma shifts_disjoint: "push_bit 8 (promote x) AND drop_bit 8 (promote x) = 0"
  unfolding promote_def
  by (rule bit_word_eqI) (auto simp add: bit_simps dest: bit_imp_le_length)

lemma uint_or_shifts:
  "uint (or_int (push_bit 8 (promote x)) (drop_bit 8 (promote x))) = uint x * 2 ^ 8 + uint x div 2 ^ 8"
proof -
  let ?l = "push_bit 8 (promote x)" and ?r = "drop_bit 8 (promote x)"
  have "or_int ?l ?r = ?l + ?r"
    unfolding or_int_def using shifts_disjoint [of x] by (rule disjunctive_add_eq_or [symmetric])
  moreover have "uint ?l + uint ?r < 2 ^ LENGTH(32)"
    using uint16_range [of x] by (simp add: uint_shl_promote uint_shr_promote)
  then have "uint (?l + ?r) = uint ?l + uint ?r"
    by (simp only: uint_add_lem)
  ultimately show ?thesis
    by (simp only: uint_shl_promote uint_shr_promote)
qed

text \<open>The conversion to \<^verbatim>\<open>uint16_t\<close> keeps the low 16 bits.\<close>

lemma to_uint16_ucast: "to_uint16 a = ucast a"
proof -
  have "sint a mod 2 ^ 16 = take_bit 16 (sint a)"
    by (simp add: take_bit_eq_mod)
  then have "to_uint16 a = word_of_int (take_bit 16 (sint a))"
    by (simp only: to_uint16_def)
  also have "\<dots> = ucast a"
    by (rule bit_word_eqI) (auto simp add: bit_simps bit_sint_iff)
  finally show ?thesis .
qed

lemma uint_to_uint16: "uint (to_uint16 a) = sint a mod 2 ^ 16"
  by (simp add: to_uint16_def uint_word_of_int)

lemma swap_arith:
  fixes k :: int
  assumes "0 \<le> k" and "k < 2 ^ 16"
  shows "(k * 2 ^ 8 + k div 2 ^ 8) mod 2 ^ 16 = (k mod 2 ^ 8) * 2 ^ 8 + k div 2 ^ 8"
proof -
  define q where "q = k div 256"
  define m where "m = k mod 256"
  have k: "k = q * 256 + m" by (simp add: q_def m_def)
  have q: "0 \<le> q" "q < 256" using assms by (simp_all add: q_def m_def)
  have m: "0 \<le> m" "m < 256" by (simp_all add: q_def m_def)
  have "k * 256 + q = (m * 256 + q) + q * 65536"
    by (simp add: k algebra_simps)
  then have "(k * 256 + q) mod 65536 = (m * 256 + q) mod 65536"
    by (simp only: mod_mult_self1)
  also have "\<dots> = m * 256 + q"
  proof (rule mod_pos_pos_trivial)
    show "0 \<le> m * 256 + q" using q m by simp
    show "m * 256 + q < 65536" using q m by simp
  qed
  finally show ?thesis by (simp add: q_def m_def)
qed

section \<open>Both branches as one 16-bit expression\<close>

lemma builtin_bswap16_bits: "builtin_bswap16 x = push_bit 8 x OR drop_bit 8 x"
  unfolding builtin_bswap16_def low_byte_def high_byte_def
  by (rule bit_word_eqI) (auto simp add: bit_simps dest: bit_imp_le_length)

lemma be16toh_portable_bits: "be16toh_portable x = Some (push_bit 8 x OR drop_bit 8 x)"
proof -
  have "to_uint16 (or_int (push_bit 8 (promote x)) (drop_bit 8 (promote x))) = push_bit 8 x OR drop_bit 8 x"
    unfolding to_uint16_ucast or_int_def promote_def
    by (rule bit_word_eqI) (auto simp add: bit_simps dest: bit_imp_le_length)
  then show ?thesis
    by (simp add: be16toh_portable_def shl_int_promote shr_int_promote)
qed

lemma be16toh_bits: "be16toh tc x = Some (push_bit 8 x OR drop_bit 8 x)"
  by (simp add: be16toh_def be16toh_builtin_def builtin_bswap16_bits be16toh_portable_bits)

text \<open>A 16-bit value that is at most 255 has no bit at position 8 or above.\<close>

lemma byte_bit_bound:
  fixes w :: uint16_t
  assumes "w \<le> 255" and "bit w n"
  shows "n < 8"
proof -
  from assms(1) have "uint w \<le> 255" by (simp add: word_le_def)
  then have "uint w < 2 ^ 8" by simp
  then have "take_bit 8 (uint w) = uint w" by (simp add: take_bit_int_eq_self)
  moreover from assms(2) have "bit (uint w) n"
    using bit_imp_le_length [of w n] by (simp add: bit_uint_iff)
  ultimately have "bit (take_bit 8 (uint w)) n" by simp
  then show ?thesis by (simp add: bit_take_bit_iff)
qed

lemma swap_of_bytes:
  fixes hi lo :: uint16_t
  assumes "hi \<le> 255" and "lo \<le> 255"
  shows "push_bit 8 (push_bit 8 hi OR lo) OR drop_bit 8 (push_bit 8 hi OR lo) = push_bit 8 lo OR hi"
proof (rule bit_word_eqI)
  fix n
  assume "n < LENGTH(16)"
  then show "bit (push_bit 8 (push_bit 8 hi OR lo) OR drop_bit 8 (push_bit 8 hi OR lo)) n
      \<longleftrightarrow> bit (push_bit 8 lo OR hi) n"
    using byte_bit_bound [OF assms(1)] byte_bit_bound [OF assms(2)]
    by (auto simp add: bit_simps)
qed

lemma swap_twice:
  fixes x :: uint16_t
  shows "push_bit 8 (push_bit 8 x OR drop_bit 8 x) OR drop_bit 8 (push_bit 8 x OR drop_bit 8 x) = x"
  by (rule bit_word_eqI) (auto simp add: bit_simps dest: bit_imp_le_length)

lemma bytes_eq:
  fixes hi lo :: uint16_t
  assumes "hi \<le> 255" and "lo \<le> 255"
    and "push_bit 8 lo OR hi = push_bit 8 hi OR lo"
  shows "hi = lo"
proof (rule bit_word_eqI)
  fix n
  assume "n < LENGTH(16)"
  from assms(3) have "bit (push_bit 8 lo OR hi) n \<longleftrightarrow> bit (push_bit 8 hi OR lo) n"
    by simp
  then show "bit hi n \<longleftrightarrow> bit lo n"
    using byte_bit_bound [OF assms(1), of n] byte_bit_bound [OF assms(2), of n]
    by (auto simp add: bit_simps)
qed

section \<open>The bodies run on the machine\<close>

text \<open>
  Run from any memory \<open>m\<close>, each body gives the value of the function of the same name
  and leaves \<open>m\<close>; for \<^verbatim>\<open>be16toh\<close> this holds for either order of the operands.
\<close>

lemma call_le16toh_body: "call le16toh_body x m = Some (le16toh x, m)"
  by (simp add: call_def le16toh_body_def bind_comp_def read_x_def yield_def le16toh_def)

lemma call_be16toh_body:
  "call (be16toh_body tc ord) x m = (case be16toh tc x of None \<Rightarrow> None | Some w \<Rightarrow> Some (w, m))"
  by (cases ord)
    (simp_all add: call_def be16toh_body_def bind_comp_def read_x_def yield_def shl_x_8_def
      shr_x_8_def defined_or_ub_def be16toh_def be16toh_builtin_def be16toh_portable_def
      shl_int_promote shr_int_promote)

section \<open>The claims\<close>

text \<open>
  Two toolchains are used where a concrete one is needed: one that defines
  \<^verbatim>\<open>__GNUC__\<close> and compiles the intrinsic, and one that defines neither macro
  and compiles the shift expression. They are written out as record values.
\<close>

text \<open>
  C1. For every 16-bit unsigned \<open>x = (hi << 8) | lo\<close> with \<open>hi\<close> and \<open>lo\<close> in
  \<open>[0, 255]\<close>, \<^verbatim>\<open>be16toh\<close> returns \<open>(lo << 8) | hi\<close>: the two bytes exchange
  position. This holds for either branch of the function.
\<close>

theorem be16toh_swaps_bytes:
  fixes hi lo x :: uint16_t
  assumes "hi \<le> 255" and "lo \<le> 255" and "x = push_bit 8 hi OR lo"
  shows "be16toh tc x = Some (push_bit 8 lo OR hi)"
proof -
  have "push_bit 8 x OR drop_bit 8 x = push_bit 8 lo OR hi"
    unfolding assms(3) using assms(1,2) by (rule swap_of_bytes)
  then show ?thesis
    by (simp only: be16toh_bits)
qed

theorem be16toh_swaps_bytes_witness:
  "(0x12 :: uint16_t) \<le> 255 \<and> (0x34 :: uint16_t) \<le> 255
   \<and> (0x1234 :: uint16_t) = push_bit 8 0x12 OR 0x34
   \<and> be16toh \<lparr>defined_GNUC = True, defined_clang = False\<rparr> 0x1234 = Some 0x3412
   \<and> be16toh \<lparr>defined_GNUC = False, defined_clang = False\<rparr> 0x1234 = Some 0x3412"
  using be16toh_swaps_bytes [of "0x12" "0x34" "0x1234" "\<lparr>defined_GNUC = True, defined_clang = False\<rparr>"]
    be16toh_swaps_bytes [of "0x12" "0x34" "0x1234" "\<lparr>defined_GNUC = False, defined_clang = False\<rparr>"]
  by simp

text \<open>C2. For every 16-bit unsigned \<open>x\<close>, \<^verbatim>\<open>le16toh\<close> returns \<open>x\<close> unchanged.\<close>

theorem le16toh_identity: "le16toh x = x"
  by (simp add: le16toh_def)

text \<open>
  C3. \<^verbatim>\<open>be16toh\<close> is an involution: for every 16-bit unsigned \<open>x\<close>, the call on
  \<open>x\<close> returns a value, and the call on that value returns \<open>x\<close>.
\<close>

theorem be16toh_involution: "Option.bind (be16toh tc x) (be16toh tc) = Some x"
  by (simp only: be16toh_bits Option.bind.bind_lunit swap_twice)

text \<open>
  C4. For every 16-bit unsigned \<open>x = (hi << 8) | lo\<close>, \<^verbatim>\<open>be16toh(x)\<close> returns a value
  different from \<open>x\<close> whenever \<open>hi \<noteq> lo\<close>, and returns \<open>x\<close> whenever \<open>hi = lo\<close>: the fixed
  points of the swap are the values whose two bytes are equal.
\<close>

theorem be16toh_fixed_points:
  fixes hi lo x :: uint16_t
  assumes "hi \<le> 255" and "lo \<le> 255" and "x = push_bit 8 hi OR lo"
  shows "(hi \<noteq> lo \<longrightarrow> (\<exists>y. be16toh tc x = Some y \<and> y \<noteq> x))
    \<and> (hi = lo \<longrightarrow> be16toh tc x = Some x)"
proof -
  have "push_bit 8 x OR drop_bit 8 x = push_bit 8 lo OR hi"
    unfolding assms(3) using assms(1,2) by (rule swap_of_bytes)
  then have swapped: "be16toh tc x = Some (push_bit 8 lo OR hi)"
    by (simp only: be16toh_bits)
  have "hi = lo" if "push_bit 8 lo OR hi = x"
  proof -
    from that assms(3) have "push_bit 8 lo OR hi = push_bit 8 hi OR lo"
      by simp
    with assms(1,2) show ?thesis by (rule bytes_eq)
  qed
  then have "push_bit 8 lo OR hi \<noteq> x" if "hi \<noteq> lo"
    using that by blast
  with swapped have "\<exists>y. be16toh tc x = Some y \<and> y \<noteq> x" if "hi \<noteq> lo"
    using that by blast
  moreover have "be16toh tc x = Some x" if "hi = lo"
    using that swapped assms(3) by simp
  ultimately show ?thesis by blast
qed

theorem be16toh_fixed_points_witness:
  "(0x12 :: uint16_t) \<le> 255 \<and> (0x34 :: uint16_t) \<le> 255
   \<and> (0x1234 :: uint16_t) = push_bit 8 0x12 OR 0x34 \<and> (0x12 :: uint16_t) \<noteq> 0x34
   \<and> (0x3434 :: uint16_t) = push_bit 8 0x34 OR 0x34
   \<and> (\<exists>y. be16toh \<lparr>defined_GNUC = False, defined_clang = False\<rparr> 0x1234 = Some y \<and> y \<noteq> 0x1234)
   \<and> be16toh \<lparr>defined_GNUC = False, defined_clang = False\<rparr> 0x3434 = Some 0x3434
   \<and> (\<exists>y. be16toh \<lparr>defined_GNUC = False, defined_clang = True\<rparr> 0x1234 = Some y \<and> y \<noteq> 0x1234)
   \<and> be16toh \<lparr>defined_GNUC = False, defined_clang = True\<rparr> 0x3434 = Some 0x3434"
  using be16toh_fixed_points [of "0x12" "0x34" "0x1234" "\<lparr>defined_GNUC = False, defined_clang = False\<rparr>"]
    be16toh_fixed_points [of "0x34" "0x34" "0x3434" "\<lparr>defined_GNUC = False, defined_clang = False\<rparr>"]
    be16toh_fixed_points [of "0x12" "0x34" "0x1234" "\<lparr>defined_GNUC = False, defined_clang = True\<rparr>"]
    be16toh_fixed_points [of "0x34" "0x34" "0x3434" "\<lparr>defined_GNUC = False, defined_clang = True\<rparr>"]
  by simp

text \<open>
  C5. The boundary inputs: \<^verbatim>\<open>be16toh\<close> maps \<open>0x0000\<close> to \<open>0x0000\<close>, \<open>0xFFFF\<close> to
  \<open>0xFFFF\<close>, \<open>0x1234\<close> to \<open>0x3412\<close>, \<open>0x00FF\<close> to \<open>0xFF00\<close> and \<open>0xFF00\<close> to
  \<open>0x00FF\<close>. Both branches are evaluated from their definitions.
\<close>

theorem be16toh_boundary_cases:
  "be16toh tc 0x0000 = Some 0x0000
   \<and> be16toh tc 0xFFFF = Some 0xFFFF
   \<and> be16toh tc 0x1234 = Some 0x3412
   \<and> be16toh tc 0x00FF = Some 0xFF00
   \<and> be16toh tc 0xFF00 = Some 0x00FF"
  by (simp add: be16toh_def be16toh_builtin_def builtin_bswap16_def low_byte_def high_byte_def
      word_cat_eq be16toh_portable_def shl_int_def shr_int_def promote_def or_int_def to_uint16_def)

text \<open>
  C6. The branch that calls the intrinsic and the branch that shifts return the same
  value for every 16-bit input, so \<^verbatim>\<open>be16toh\<close> does not depend on the toolchain.
\<close>

theorem be16toh_branches_agree:
  "be16toh_builtin x = be16toh_portable x \<and> be16toh tc x = be16toh tc' x"
  by (simp add: be16toh_bits be16toh_builtin_def builtin_bswap16_bits be16toh_portable_bits)



text \<open>
  C8. Both functions are total on the 16-bit unsigned inputs: for every \<open>x\<close> each returns
  a 16-bit unsigned value. \<^verbatim>\<open>le16toh\<close> has no operation that could fail;
  in \<^verbatim>\<open>be16toh\<close> neither branch reaches undefined behaviour.
\<close>

theorem conversions_total:
  "(\<exists>y. be16toh tc x = Some y \<and> unat y < 2 ^ 16) \<and> unat (le16toh x) < 2 ^ 16
   \<and> be16toh_builtin x \<noteq> None \<and> be16toh_portable x \<noteq> None"
proof -
  have "unat w < 2 ^ 16" for w :: uint16_t
    using unsigned_less [of w, where ?'a = nat] by simp
  then show ?thesis
    by (simp add: be16toh_bits be16toh_builtin_def be16toh_portable_bits)
qed

text \<open>
  C9. The two functions are deterministic and free of side effects. Run on the machine
  from any two memories \<open>m\<close> and \<open>m'\<close>, two calls of the same function on equal inputs
  are both defined and return the same value, which is the value of the function of
  that name; each call leaves the memory it was given; for \<^verbatim>\<open>be16toh\<close> the value does
  not depend on which operand of \<^verbatim>\<open>|\<close> is evaluated first; and a call of one function
  followed by a call of the other gives the same two values and the same memory in
  either order. This is derived from what the statements of the bodies do to the
  state: a body that assigned to the memory, or returned a value read from it, would
  not satisfy it.
\<close>

theorem conversions_deterministic_pure:
  assumes "x = y"
  shows "call le16toh_body x m = Some (le16toh x, m)
    \<and> call le16toh_body y m' = Some (le16toh x, m')
    \<and> (\<exists>w. be16toh tc x = Some w
          \<and> call (be16toh_body tc ord) x m = Some (w, m)
          \<and> call (be16toh_body tc ord') y m' = Some (w, m'))
    \<and> Option.bind (call le16toh_body x m)
          (\<lambda>(a, m1). Option.bind (call (be16toh_body tc ord) z m1) (\<lambda>(b, m2). Some (a, b, m2)))
      = Option.bind (call (be16toh_body tc ord') z m)
          (\<lambda>(b, m1). Option.bind (call le16toh_body y m1) (\<lambda>(a, m2). Some (a, b, m2)))"
  using assms by (simp add: call_le16toh_body call_be16toh_body be16toh_bits)

theorem conversions_deterministic_pure_witness:
  "(0x1234 :: uint16_t) = 0x1234
   \<and> call le16toh_body 0x1234 (0 :: nat) = Some (0x1234, 0)
   \<and> call le16toh_body 0x1234 (7 :: nat) = Some (0x1234, 7)
   \<and> call (be16toh_body \<lparr>defined_GNUC = False, defined_clang = False\<rparr> Left_first) 0x1234 (0 :: nat)
       = Some (0x3412, 0)
   \<and> call (be16toh_body \<lparr>defined_GNUC = False, defined_clang = False\<rparr> Right_first) 0x1234 (7 :: nat)
       = Some (0x3412, 7)"
  using conversions_deterministic_pure [of "0x1234" "0x1234" "0 :: nat" "7 :: nat"
      "\<lparr>defined_GNUC = False, defined_clang = False\<rparr>" Left_first Right_first "0x00FF"]
  by (simp add: le16toh_def be16toh_def be16toh_portable_def shl_int_def
      shr_int_def promote_def or_int_def to_uint16_def)

text \<open>
  C10. In the portable branch \<open>x\<close> is promoted to \<^verbatim>\<open>int\<close>; \<^verbatim>\<open>x << 8\<close> is defined and
  has the value \<open>x * 2 ^ 8\<close>, which keeps the bits shifted above position 15;
  \<^verbatim>\<open>x >> 8\<close> is defined and has the value \<open>x div 2 ^ 8\<close>; their disjunction has the value
  \<open>x * 2 ^ 8 + x div 2 ^ 8\<close>; and the conversion to \<^verbatim>\<open>uint16_t\<close> on return drops the
  bits above position 15, which leaves \<open>(x mod 2 ^ 8) * 2 ^ 8 + x div 2 ^ 8\<close>, the exact
  byte swap.
\<close>

theorem be16toh_portable_exact_swap:
  "\<exists>l r. shl_int (promote x) 8 = Some l \<and> sint l = uint x * 2 ^ 8
     \<and> shr_int (promote x) 8 = Some r \<and> sint r = uint x div 2 ^ 8
     \<and> sint (or_int l r) = uint x * 2 ^ 8 + uint x div 2 ^ 8
     \<and> be16toh_portable x = Some (to_uint16 (or_int l r))
     \<and> uint (to_uint16 (or_int l r)) = (uint x mod 2 ^ 8) * 2 ^ 8 + uint x div 2 ^ 8"
proof -
  let ?l = "push_bit 8 (promote x)" and ?r = "drop_bit 8 (promote x)"
  have range: "0 \<le> uint x" "uint x < 2 ^ 16" by (rule uint16_range)+
  have l: "sint ?l = uint x * 2 ^ 8"
    using range by (simp add: sint_eq_uint_small uint_shl_promote)
  have r: "sint ?r = uint x div 2 ^ 8"
    using range by (simp add: sint_eq_uint_small uint_shr_promote)
  have lr: "sint (or_int ?l ?r) = uint x * 2 ^ 8 + uint x div 2 ^ 8"
    using range by (simp add: sint_eq_uint_small uint_or_shifts)
  have res: "uint (to_uint16 (or_int ?l ?r)) = (uint x mod 2 ^ 8) * 2 ^ 8 + uint x div 2 ^ 8"
    unfolding uint_to_uint16 lr using range by (rule swap_arith)
  have "be16toh_portable x = Some (to_uint16 (or_int ?l ?r))"
    by (simp add: be16toh_portable_def shl_int_promote shr_int_promote)
  with l r lr res show ?thesis
    using shl_int_promote [of x] shr_int_promote [of x] by blast
qed

end
